theory Spec2Isabelle
  imports Main "HOL-Library.Word"
begin

section \<open>Python values used by the key-value API\<close>

text \<open>
  The arguments of the functions of \<^verbatim>\<open>pyignite/api/key_value.py\<close> are untyped Python
  objects. The values that matter here are \<^verbatim>\<open>None\<close>, booleans, integers, text, lists,
  tuples and dictionaries. A Python \<^verbatim>\<open>str\<close> is a sequence of code points, so it is a
  list of naturals; a dictionary is an association list in insertion order (a Python
  dictionary holds no two equal keys).
\<close>

type_synonym pystr = "nat list"

datatype pyval =
    PyNone
  | PyBool bool
  | PyInt int
  | PyStr pystr
  | PyList "pyval list"
  | PyTuple "pyval list"
  | PyDict "(pyval \<times> pyval) list"

datatype py_error = KeyError | TypeError | ValueError | OtherError string

text \<open>A string literal of the source, as a Python \<^verbatim>\<open>str\<close>.\<close>

definition str :: "string \<Rightarrow> pystr" where
  "str s = map of_char s"

text \<open>Truth value of an object, as used by \<^verbatim>\<open>1 if binary else 0\<close>.\<close>

fun truthy :: "pyval \<Rightarrow> bool" where
  "truthy PyNone = False"
| "truthy (PyBool b) = b"
| "truthy (PyInt n) = (n \<noteq> 0)"
| "truthy (PyStr s) = (s \<noteq> [])"
| "truthy (PyList xs) = (xs \<noteq> [])"
| "truthy (PyTuple xs) = (xs \<noteq> [])"
| "truthy (PyDict kvs) = (kvs \<noteq> [])"

text \<open>\<^verbatim>\<open>isinstance(x, (list, tuple))\<close>\<close>

fun isinstance_list_tuple :: "pyval \<Rightarrow> bool" where
  "isinstance_list_tuple (PyList xs) = True"
| "isinstance_list_tuple (PyTuple xs) = True"
| "isinstance_list_tuple v = False"

text \<open>
  \<^verbatim>\<open>x == 0\<close>: besides the integer 0 Python equates \<^verbatim>\<open>False\<close> with 0
  (\<^verbatim>\<open>bool\<close> is a subclass of \<^verbatim>\<open>int\<close>); text, \<^verbatim>\<open>None\<close> and containers never
  equal 0.
\<close>

fun eq_zero :: "pyval \<Rightarrow> bool" where
  "eq_zero (PyInt n) = (n = 0)"
| "eq_zero (PyBool b) = (\<not> b)"
| "eq_zero v = False"

text \<open>
  Dictionary keys are compared with \<^verbatim>\<open>==\<close>. On hashable values (no lists, no
  dictionaries) two keys are equal exactly when they agree after booleans are read as
  the integers they equal.
\<close>

fun py_key :: "pyval \<Rightarrow> pyval" where
  "py_key (PyBool b) = PyInt (if b then 1 else 0)"
| "py_key (PyTuple xs) = PyTuple (map py_key xs)"
| "py_key v = v"

fun hashable :: "pyval \<Rightarrow> bool" where
  "hashable (PyList xs) = False"
| "hashable (PyDict kvs) = False"
| "hashable (PyTuple xs) = list_all hashable xs"
| "hashable v = True"

text \<open>Iteration over an object: \<^verbatim>\<open>TypeError\<close> when it is not iterable.\<close>

fun py_iter :: "pyval \<Rightarrow> py_error + pyval list" where
  "py_iter (PyList xs) = Inr xs"
| "py_iter (PyTuple xs) = Inr xs"
| "py_iter (PyStr s) = Inr (map (\<lambda>c. PyStr [c]) s)"
| "py_iter (PyDict kvs) = Inr (map fst kvs)"
| "py_iter v = Inl TypeError"

text \<open>\<^verbatim>\<open>d[k] = v\<close> on a dictionary: an equal key keeps its place and takes the new value.\<close>

fun dict_setitem :: "(pyval \<times> pyval) list \<Rightarrow> pyval \<Rightarrow> pyval \<Rightarrow> (pyval \<times> pyval) list" where
  "dict_setitem [] k v = [(k, v)]"
| "dict_setitem ((k', v') # kvs) k v =
     (if py_key k' = py_key k then (k', v) # kvs else (k', v') # dict_setitem kvs k v)"

text \<open>
  The constructor \<^verbatim>\<open>dict(x)\<close>. A dictionary is copied. Any other iterable must yield
  items that are themselves iterables of exactly two elements, key and value
  (\<^verbatim>\<open>ValueError\<close> for another length, \<^verbatim>\<open>TypeError\<close> for an item that is no sequence or
  a key that is not hashable).
\<close>

fun dict_update_seq :: "(pyval \<times> pyval) list \<Rightarrow> pyval list \<Rightarrow> py_error + (pyval \<times> pyval) list" where
  "dict_update_seq d [] = Inr d"
| "dict_update_seq d (item # items) =
     (case py_iter item of
        Inl e \<Rightarrow> Inl TypeError
      | Inr [k, v] \<Rightarrow>
          if hashable k then dict_update_seq (dict_setitem d k v) items else Inl TypeError
      | Inr other \<Rightarrow> Inl ValueError)"

definition py_dict :: "pyval \<Rightarrow> py_error + (pyval \<times> pyval) list" where
  "py_dict x =
     (case x of
        PyDict kvs \<Rightarrow> Inr kvs
      | _ \<Rightarrow> (case py_iter x of Inl e \<Rightarrow> Inl e | Inr items \<Rightarrow> dict_update_seq [] items))"

text \<open>
  The subscript \<^verbatim>\<open>d['name']\<close> with a text key, on a dictionary given as its association
  list: a \<^verbatim>\<open>str\<close> key is equal to an equal \<^verbatim>\<open>str\<close> only, and a missing key raises
  \<^verbatim>\<open>KeyError\<close>.
\<close>

definition dict_getitem :: "(pyval \<times> pyval) list \<Rightarrow> string \<Rightarrow> py_error + pyval" where
  "dict_getitem kvs name =
     (case map_of kvs (PyStr (str name)) of None \<Rightarrow> Inl KeyError | Some v \<Rightarrow> Inr v)"

text \<open>
  The subscript \<^verbatim>\<open>x['name']\<close> on any object: only a dictionary accepts a text
  subscript; \<^verbatim>\<open>None\<close>, numbers, text, lists and tuples raise \<^verbatim>\<open>TypeError\<close>.
\<close>

definition py_getitem :: "pyval \<Rightarrow> string \<Rightarrow> py_error + pyval" where
  "py_getitem x name =
     (case x of PyDict kvs \<Rightarrow> dict_getitem kvs name | _ \<Rightarrow> Inl TypeError)"

section \<open>Types, queries and results\<close>

text \<open>
  The data types imported from \<^verbatim>\<open>pyignite.datatypes\<close> and
  \<^verbatim>\<open>pyignite.datatypes.key_value\<close>. \<open>Int_type\<close> is the class \<^verbatim>\<open>Int\<close> (the plain name
  is taken in HOL), \<open>AnyDataArray\<close> is the instance \<^verbatim>\<open>AnyDataArray()\<close>, and
  \<open>DataType n\<close> is any other data type class, by name, that a caller passes as a hint.
\<close>

datatype ignite_type =
    Int_type
  | Byte
  | Bool
  | Long
  | Map
  | AnyDataObject
  | AnyDataArray
  | PeekModes
  | DataType string

text \<open>The operation codes imported from \<^verbatim>\<open>pyignite.queries.op_codes\<close>, by name.\<close>

datatype op_code =
    OP_CACHE_GET
  | OP_CACHE_PUT
  | OP_CACHE_PUT_IF_ABSENT
  | OP_CACHE_GET_ALL
  | OP_CACHE_PUT_ALL
  | OP_CACHE_GET_AND_PUT
  | OP_CACHE_GET_AND_REPLACE
  | OP_CACHE_GET_AND_REMOVE
  | OP_CACHE_GET_AND_PUT_IF_ABSENT
  | OP_CACHE_REPLACE
  | OP_CACHE_REPLACE_IF_EQUALS
  | OP_CACHE_CONTAINS_KEY
  | OP_CACHE_CONTAINS_KEYS
  | OP_CACHE_CLEAR
  | OP_CACHE_CLEAR_KEY
  | OP_CACHE_CLEAR_KEYS
  | OP_CACHE_REMOVE_KEY
  | OP_CACHE_REMOVE_IF_EQUALS
  | OP_CACHE_REMOVE_KEYS
  | OP_CACHE_REMOVE_ALL
  | OP_CACHE_GET_SIZE

text \<open>
  The result object every function returns. The functions read \<open>status\<close> and read and
  assign \<open>value\<close>; the error message and the query id of the response are carried
  along.
\<close>

record APIResult =
  status :: int
  message :: pystr
  response_query_id :: int
  "value" :: pyval

text \<open>
  \<^verbatim>\<open>Query(op_code, following, query_id=query_id)\<close>: the operation code, the request
  schema as the ordered list of field names with their types, and the caller's query id
  (\<^verbatim>\<open>None\<close> when omitted).
\<close>

datatype query =
  Query (op_code: op_code) (following: "(string \<times> ignite_type) list") "int option"

text \<open>
  \<^verbatim>\<open>query_struct.perform(connection, query_params, response_config)\<close> is the exchange
  with the server. Its code is not part of this module, so every function below takes
  it as its first argument. An exchange uses the connection, a stateful object: it is
  given the connection's state and returns the new one, together with either the
  exception it raised or the result object. \<open>response_config\<close> is \<open>None\<close> when the
  caller passes none.
\<close>

type_synonym 'c perform =
  "query \<Rightarrow> 'c \<Rightarrow> (string \<times> pyval) list \<Rightarrow> (string \<times> ignite_type) list option
    \<Rightarrow> (py_error + APIResult) \<times> 'c"

text \<open>
  \<^verbatim>\<open>hint or AnyDataObject\<close>: a hint parameter is \<^verbatim>\<open>None\<close> or a data type. Data types
  are classes or plain instances, which Python takes as true, so \<^verbatim>\<open>or\<close> yields its
  right operand exactly when the hint is \<^verbatim>\<open>None\<close>.
\<close>

fun hint_or :: "ignite_type option \<Rightarrow> ignite_type \<Rightarrow> ignite_type" where
  "hint_or None d = d"
| "hint_or (Some h) d = h"

section \<open>Cache identifiers\<close>

text \<open>The \<^verbatim>\<open>cache\<close> argument, \<^verbatim>\<open>Union[str, int]\<close>: a cache name or a cache id.\<close>

datatype cache = CacheName pystr | CacheId int

text \<open>The UTF-16 code units of a code point: one unit below 0x10000, else a surrogate pair.\<close>

definition utf16 :: "nat \<Rightarrow> nat list" where
  "utf16 cp =
     (if cp < 0x10000 then [cp]
      else [0xD800 + (cp - 0x10000) div 0x400, 0xDC00 + (cp - 0x10000) mod 0x400])"

text \<open>
  Modelled from the spec: \<^verbatim>\<open>hashcode\<close>, the string hash behind \<^verbatim>\<open>cache_id\<close>, is in
  \<^verbatim>\<open>pyignite.utils\<close>, which is not among the sources. The specification describes it as
  a polynomial hash over the UTF-16 code units of the name, with multiplier 31,
  accumulated in wrap-around 32-bit signed arithmetic.
\<close>

definition hashcode :: "pystr \<Rightarrow> 32 word" where
  "hashcode s = foldl (\<lambda>h u. 31 * h + of_nat u) 0 (concat (map utf16 s))"

text \<open>
  Modelled from the spec: \<^verbatim>\<open>cache_id\<close> is imported from \<^verbatim>\<open>pyignite.utils\<close>, which is
  not among the sources. The specification describes it as: given an integer, return it
  unchanged; given a string, return its hash as a signed 32-bit integer.
\<close>

fun cache_id :: "cache \<Rightarrow> int" where
  "cache_id (CacheId n) = n"
| "cache_id (CacheName s) = sint (hashcode s)"

section \<open>The cache operations\<close>

text \<open>
  Each function of \<^verbatim>\<open>key_value.py\<close> builds a \<^verbatim>\<open>Query\<close> (the local variable
  \<^verbatim>\<open>query_struct\<close>), calls its \<^verbatim>\<open>perform\<close> with the dictionary of parameters
  (the argument \<^verbatim>\<open>query_params\<close>) and, where it passes a response configuration, unwraps
  one field of the result when the status is 0. For every function \<open>f\<close> the constant
  \<open>f_query_struct\<close> is that query, \<open>f_query_params\<close> that dictionary, in the order
  in which the source writes the entries, and \<open>f\<close> the function itself. The argument
  \<^verbatim>\<open>value\<close> is written \<open>val\<close>. In \<open>cache_get_size\<close> the parameter \<^verbatim>\<open>peek_modes\<close> is
  rebound before the dictionary is built; the rebinding is the \<open>let\<close> of
  \<open>cache_get_size_query_params\<close>.
\<close>

definition cache_put_query_struct :: "ignite_type option \<Rightarrow> ignite_type option \<Rightarrow> int option \<Rightarrow> query" where
  "cache_put_query_struct key_hint value_hint query_id =
     Query OP_CACHE_PUT
       [(''hash_code'', Int_type),
        (''flag'', Byte),
        (''key'', hint_or key_hint AnyDataObject),
        (''value'', hint_or value_hint AnyDataObject)]
       query_id"

definition cache_put_query_params :: "cache \<Rightarrow> pyval \<Rightarrow> pyval \<Rightarrow> pyval \<Rightarrow> (string \<times> pyval) list" where
  "cache_put_query_params cache key val binary =
     [(''hash_code'', PyInt (cache_id cache)),
      (''flag'', PyInt (if truthy binary then 1 else 0)),
      (''key'', key),
      (''value'', val)]"

definition cache_put :: "'c perform \<Rightarrow> 'c \<Rightarrow> cache \<Rightarrow> pyval \<Rightarrow> pyval \<Rightarrow> ignite_type option \<Rightarrow> ignite_type option \<Rightarrow> pyval \<Rightarrow> int option \<Rightarrow> (py_error + APIResult) \<times> 'c" where
  "cache_put perform connection cache key val key_hint value_hint binary query_id =
     perform (cache_put_query_struct key_hint value_hint query_id) connection
       (cache_put_query_params cache key val binary) None"

definition cache_get_query_struct :: "ignite_type option \<Rightarrow> int option \<Rightarrow> query" where
  "cache_get_query_struct key_hint query_id =
     Query OP_CACHE_GET
       [(''hash_code'', Int_type),
        (''flag'', Byte),
        (''key'', hint_or key_hint AnyDataObject)]
       query_id"

definition cache_get_query_params :: "cache \<Rightarrow> pyval \<Rightarrow> pyval \<Rightarrow> (string \<times> pyval) list" where
  "cache_get_query_params cache key binary =
     [(''hash_code'', PyInt (cache_id cache)),
      (''flag'', PyInt (if truthy binary then 1 else 0)),
      (''key'', key)]"

definition cache_get :: "'c perform \<Rightarrow> 'c \<Rightarrow> cache \<Rightarrow> pyval \<Rightarrow> ignite_type option \<Rightarrow> pyval \<Rightarrow> int option \<Rightarrow> (py_error + APIResult) \<times> 'c" where
  "cache_get perform connection cache key key_hint binary query_id =
     (case perform (cache_get_query_struct key_hint query_id) connection
             (cache_get_query_params cache key binary) (Some [(''value'', AnyDataObject)]) of
        (Inl e, connection') \<Rightarrow> (Inl e, connection')
      | (Inr result, connection') \<Rightarrow>
          if status result \<noteq> 0 then (Inr result, connection')
          else
            (case py_getitem (value result) ''value'' of
               Inl e \<Rightarrow> (Inl e, connection')
             | Inr v \<Rightarrow> (Inr (result\<lparr>value := v\<rparr>), connection')))"

definition cache_get_all_query_struct :: "int option \<Rightarrow> query" where
  "cache_get_all_query_struct query_id =
     Query OP_CACHE_GET_ALL
       [(''hash_code'', Int_type),
        (''flag'', Byte),
        (''keys'', AnyDataArray)]
       query_id"

definition cache_get_all_query_params :: "cache \<Rightarrow> pyval \<Rightarrow> pyval \<Rightarrow> (string \<times> pyval) list" where
  "cache_get_all_query_params cache keys binary =
     [(''hash_code'', PyInt (cache_id cache)),
      (''flag'', PyInt (if truthy binary then 1 else 0)),
      (''keys'', keys)]"

definition cache_get_all :: "'c perform \<Rightarrow> 'c \<Rightarrow> cache \<Rightarrow> pyval \<Rightarrow> pyval \<Rightarrow> int option \<Rightarrow> (py_error + APIResult) \<times> 'c" where
  "cache_get_all perform connection cache keys binary query_id =
     (case perform (cache_get_all_query_struct query_id) connection
             (cache_get_all_query_params cache keys binary) (Some [(''data'', Map)]) of
        (Inl e, connection') \<Rightarrow> (Inl e, connection')
      | (Inr result, connection') \<Rightarrow>
          if status result = 0 then
            (case py_dict (value result) of
               Inl e \<Rightarrow> (Inl e, connection')
             | Inr d \<Rightarrow>
                 (case dict_getitem d ''data'' of
                    Inl e \<Rightarrow> (Inl e, connection')
                  | Inr v \<Rightarrow> (Inr (result\<lparr>value := v\<rparr>), connection')))
          else (Inr result, connection'))"

definition cache_put_all_query_struct :: "int option \<Rightarrow> query" where
  "cache_put_all_query_struct query_id =
     Query OP_CACHE_PUT_ALL
       [(''hash_code'', Int_type),
        (''flag'', Byte),
        (''data'', Map)]
       query_id"

definition cache_put_all_query_params :: "cache \<Rightarrow> pyval \<Rightarrow> pyval \<Rightarrow> (string \<times> pyval) list" where
  "cache_put_all_query_params cache pairs binary =
     [(''hash_code'', PyInt (cache_id cache)),
      (''flag'', PyInt (if truthy binary then 1 else 0)),
      (''data'', pairs)]"

definition cache_put_all :: "'c perform \<Rightarrow> 'c \<Rightarrow> cache \<Rightarrow> pyval \<Rightarrow> pyval \<Rightarrow> int option \<Rightarrow> (py_error + APIResult) \<times> 'c" where
  "cache_put_all perform connection cache pairs binary query_id =
     perform (cache_put_all_query_struct query_id) connection
       (cache_put_all_query_params cache pairs binary) None"

definition cache_contains_key_query_struct :: "ignite_type option \<Rightarrow> int option \<Rightarrow> query" where
  "cache_contains_key_query_struct key_hint query_id =
     Query OP_CACHE_CONTAINS_KEY
       [(''hash_code'', Int_type),
        (''flag'', Byte),
        (''key'', hint_or key_hint AnyDataObject)]
       query_id"

definition cache_contains_key_query_params :: "cache \<Rightarrow> pyval \<Rightarrow> pyval \<Rightarrow> (string \<times> pyval) list" where
  "cache_contains_key_query_params cache key binary =
     [(''hash_code'', PyInt (cache_id cache)),
      (''flag'', PyInt (if truthy binary then 1 else 0)),
      (''key'', key)]"

definition cache_contains_key :: "'c perform \<Rightarrow> 'c \<Rightarrow> cache \<Rightarrow> pyval \<Rightarrow> ignite_type option \<Rightarrow> pyval \<Rightarrow> int option \<Rightarrow> (py_error + APIResult) \<times> 'c" where
  "cache_contains_key perform connection cache key key_hint binary query_id =
     (case perform (cache_contains_key_query_struct key_hint query_id) connection
             (cache_contains_key_query_params cache key binary) (Some [(''value'', Bool)]) of
        (Inl e, connection') \<Rightarrow> (Inl e, connection')
      | (Inr result, connection') \<Rightarrow>
          if status result = 0 then
            (case py_getitem (value result) ''value'' of
               Inl e \<Rightarrow> (Inl e, connection')
             | Inr v \<Rightarrow> (Inr (result\<lparr>value := v\<rparr>), connection'))
          else (Inr result, connection'))"

definition cache_contains_keys_query_struct :: "int option \<Rightarrow> query" where
  "cache_contains_keys_query_struct query_id =
     Query OP_CACHE_CONTAINS_KEYS
       [(''hash_code'', Int_type),
        (''flag'', Byte),
        (''keys'', AnyDataArray)]
       query_id"

definition cache_contains_keys_query_params :: "cache \<Rightarrow> pyval \<Rightarrow> pyval \<Rightarrow> (string \<times> pyval) list" where
  "cache_contains_keys_query_params cache keys binary =
     [(''hash_code'', PyInt (cache_id cache)),
      (''flag'', PyInt (if truthy binary then 1 else 0)),
      (''keys'', keys)]"

definition cache_contains_keys :: "'c perform \<Rightarrow> 'c \<Rightarrow> cache \<Rightarrow> pyval \<Rightarrow> pyval \<Rightarrow> int option \<Rightarrow> (py_error + APIResult) \<times> 'c" where
  "cache_contains_keys perform connection cache keys binary query_id =
     (case perform (cache_contains_keys_query_struct query_id) connection
             (cache_contains_keys_query_params cache keys binary) (Some [(''value'', Bool)]) of
        (Inl e, connection') \<Rightarrow> (Inl e, connection')
      | (Inr result, connection') \<Rightarrow>
          if status result = 0 then
            (case py_getitem (value result) ''value'' of
               Inl e \<Rightarrow> (Inl e, connection')
             | Inr v \<Rightarrow> (Inr (result\<lparr>value := v\<rparr>), connection'))
          else (Inr result, connection'))"

definition cache_get_and_put_query_struct :: "ignite_type option \<Rightarrow> ignite_type option \<Rightarrow> int option \<Rightarrow> query" where
  "cache_get_and_put_query_struct key_hint value_hint query_id =
     Query OP_CACHE_GET_AND_PUT
       [(''hash_code'', Int_type),
        (''flag'', Byte),
        (''key'', hint_or key_hint AnyDataObject),
        (''value'', hint_or value_hint AnyDataObject)]
       query_id"

definition cache_get_and_put_query_params :: "cache \<Rightarrow> pyval \<Rightarrow> pyval \<Rightarrow> pyval \<Rightarrow> (string \<times> pyval) list" where
  "cache_get_and_put_query_params cache key val binary =
     [(''hash_code'', PyInt (cache_id cache)),
      (''flag'', PyInt (if truthy binary then 1 else 0)),
      (''key'', key),
      (''value'', val)]"

definition cache_get_and_put :: "'c perform \<Rightarrow> 'c \<Rightarrow> cache \<Rightarrow> pyval \<Rightarrow> pyval \<Rightarrow> ignite_type option \<Rightarrow> ignite_type option \<Rightarrow> pyval \<Rightarrow> int option \<Rightarrow> (py_error + APIResult) \<times> 'c" where
  "cache_get_and_put perform connection cache key val key_hint value_hint binary query_id =
     (case perform (cache_get_and_put_query_struct key_hint value_hint query_id) connection
             (cache_get_and_put_query_params cache key val binary) (Some [(''value'', AnyDataObject)]) of
        (Inl e, connection') \<Rightarrow> (Inl e, connection')
      | (Inr result, connection') \<Rightarrow>
          if status result = 0 then
            (case py_getitem (value result) ''value'' of
               Inl e \<Rightarrow> (Inl e, connection')
             | Inr v \<Rightarrow> (Inr (result\<lparr>value := v\<rparr>), connection'))
          else (Inr result, connection'))"

definition cache_get_and_replace_query_struct :: "ignite_type option \<Rightarrow> ignite_type option \<Rightarrow> int option \<Rightarrow> query" where
  "cache_get_and_replace_query_struct key_hint value_hint query_id =
     Query OP_CACHE_GET_AND_REPLACE
       [(''hash_code'', Int_type),
        (''flag'', Byte),
        (''key'', hint_or key_hint AnyDataObject),
        (''value'', hint_or value_hint AnyDataObject)]
       query_id"

definition cache_get_and_replace_query_params :: "cache \<Rightarrow> pyval \<Rightarrow> pyval \<Rightarrow> pyval \<Rightarrow> (string \<times> pyval) list" where
  "cache_get_and_replace_query_params cache key val binary =
     [(''hash_code'', PyInt (cache_id cache)),
      (''flag'', PyInt (if truthy binary then 1 else 0)),
      (''key'', key),
      (''value'', val)]"

definition cache_get_and_replace :: "'c perform \<Rightarrow> 'c \<Rightarrow> cache \<Rightarrow> pyval \<Rightarrow> pyval \<Rightarrow> ignite_type option \<Rightarrow> ignite_type option \<Rightarrow> pyval \<Rightarrow> int option \<Rightarrow> (py_error + APIResult) \<times> 'c" where
  "cache_get_and_replace perform connection cache key val key_hint value_hint binary query_id =
     (case perform (cache_get_and_replace_query_struct key_hint value_hint query_id) connection
             (cache_get_and_replace_query_params cache key val binary) (Some [(''value'', AnyDataObject)]) of
        (Inl e, connection') \<Rightarrow> (Inl e, connection')
      | (Inr result, connection') \<Rightarrow>
          if status result = 0 then
            (case py_getitem (value result) ''value'' of
               Inl e \<Rightarrow> (Inl e, connection')
             | Inr v \<Rightarrow> (Inr (result\<lparr>value := v\<rparr>), connection'))
          else (Inr result, connection'))"

definition cache_get_and_remove_query_struct :: "ignite_type option \<Rightarrow> int option \<Rightarrow> query" where
  "cache_get_and_remove_query_struct key_hint query_id =
     Query OP_CACHE_GET_AND_REMOVE
       [(''hash_code'', Int_type),
        (''flag'', Byte),
        (''key'', hint_or key_hint AnyDataObject)]
       query_id"

definition cache_get_and_remove_query_params :: "cache \<Rightarrow> pyval \<Rightarrow> pyval \<Rightarrow> (string \<times> pyval) list" where
  "cache_get_and_remove_query_params cache key binary =
     [(''hash_code'', PyInt (cache_id cache)),
      (''flag'', PyInt (if truthy binary then 1 else 0)),
      (''key'', key)]"

definition cache_get_and_remove :: "'c perform \<Rightarrow> 'c \<Rightarrow> cache \<Rightarrow> pyval \<Rightarrow> ignite_type option \<Rightarrow> pyval \<Rightarrow> int option \<Rightarrow> (py_error + APIResult) \<times> 'c" where
  "cache_get_and_remove perform connection cache key key_hint binary query_id =
     (case perform (cache_get_and_remove_query_struct key_hint query_id) connection
             (cache_get_and_remove_query_params cache key binary) (Some [(''value'', AnyDataObject)]) of
        (Inl e, connection') \<Rightarrow> (Inl e, connection')
      | (Inr result, connection') \<Rightarrow>
          if status result = 0 then
            (case py_getitem (value result) ''value'' of
               Inl e \<Rightarrow> (Inl e, connection')
             | Inr v \<Rightarrow> (Inr (result\<lparr>value := v\<rparr>), connection'))
          else (Inr result, connection'))"

definition cache_put_if_absent_query_struct :: "ignite_type option \<Rightarrow> ignite_type option \<Rightarrow> int option \<Rightarrow> query" where
  "cache_put_if_absent_query_struct key_hint value_hint query_id =
     Query OP_CACHE_PUT_IF_ABSENT
       [(''hash_code'', Int_type),
        (''flag'', Byte),
        (''key'', hint_or key_hint AnyDataObject),
        (''value'', hint_or value_hint AnyDataObject)]
       query_id"

definition cache_put_if_absent_query_params :: "cache \<Rightarrow> pyval \<Rightarrow> pyval \<Rightarrow> pyval \<Rightarrow> (string \<times> pyval) list" where
  "cache_put_if_absent_query_params cache key val binary =
     [(''hash_code'', PyInt (cache_id cache)),
      (''flag'', PyInt (if truthy binary then 1 else 0)),
      (''key'', key),
      (''value'', val)]"

definition cache_put_if_absent :: "'c perform \<Rightarrow> 'c \<Rightarrow> cache \<Rightarrow> pyval \<Rightarrow> pyval \<Rightarrow> ignite_type option \<Rightarrow> ignite_type option \<Rightarrow> pyval \<Rightarrow> int option \<Rightarrow> (py_error + APIResult) \<times> 'c" where
  "cache_put_if_absent perform connection cache key val key_hint value_hint binary query_id =
     (case perform (cache_put_if_absent_query_struct key_hint value_hint query_id) connection
             (cache_put_if_absent_query_params cache key val binary) (Some [(''success'', Bool)]) of
        (Inl e, connection') \<Rightarrow> (Inl e, connection')
      | (Inr result, connection') \<Rightarrow>
          if status result = 0 then
            (case py_getitem (value result) ''success'' of
               Inl e \<Rightarrow> (Inl e, connection')
             | Inr v \<Rightarrow> (Inr (result\<lparr>value := v\<rparr>), connection'))
          else (Inr result, connection'))"

definition cache_get_and_put_if_absent_query_struct :: "ignite_type option \<Rightarrow> ignite_type option \<Rightarrow> int option \<Rightarrow> query" where
  "cache_get_and_put_if_absent_query_struct key_hint value_hint query_id =
     Query OP_CACHE_GET_AND_PUT_IF_ABSENT
       [(''hash_code'', Int_type),
        (''flag'', Byte),
        (''key'', hint_or key_hint AnyDataObject),
        (''value'', hint_or value_hint AnyDataObject)]
       query_id"

definition cache_get_and_put_if_absent_query_params :: "cache \<Rightarrow> pyval \<Rightarrow> pyval \<Rightarrow> pyval \<Rightarrow> (string \<times> pyval) list" where
  "cache_get_and_put_if_absent_query_params cache key val binary =
     [(''hash_code'', PyInt (cache_id cache)),
      (''flag'', PyInt (if truthy binary then 1 else 0)),
      (''key'', key),
      (''value'', val)]"

definition cache_get_and_put_if_absent :: "'c perform \<Rightarrow> 'c \<Rightarrow> cache \<Rightarrow> pyval \<Rightarrow> pyval \<Rightarrow> ignite_type option \<Rightarrow> ignite_type option \<Rightarrow> pyval \<Rightarrow> int option \<Rightarrow> (py_error + APIResult) \<times> 'c" where
  "cache_get_and_put_if_absent perform connection cache key val key_hint value_hint binary query_id =
     (case perform (cache_get_and_put_if_absent_query_struct key_hint value_hint query_id) connection
             (cache_get_and_put_if_absent_query_params cache key val binary) (Some [(''value'', AnyDataObject)]) of
        (Inl e, connection') \<Rightarrow> (Inl e, connection')
      | (Inr result, connection') \<Rightarrow>
          if status result = 0 then
            (case py_getitem (value result) ''value'' of
               Inl e \<Rightarrow> (Inl e, connection')
             | Inr v \<Rightarrow> (Inr (result\<lparr>value := v\<rparr>), connection'))
          else (Inr result, connection'))"

definition cache_replace_query_struct :: "ignite_type option \<Rightarrow> ignite_type option \<Rightarrow> int option \<Rightarrow> query" where
  "cache_replace_query_struct key_hint value_hint query_id =
     Query OP_CACHE_REPLACE
       [(''hash_code'', Int_type),
        (''flag'', Byte),
        (''key'', hint_or key_hint AnyDataObject),
        (''value'', hint_or value_hint AnyDataObject)]
       query_id"

definition cache_replace_query_params :: "cache \<Rightarrow> pyval \<Rightarrow> pyval \<Rightarrow> pyval \<Rightarrow> (string \<times> pyval) list" where
  "cache_replace_query_params cache key val binary =
     [(''hash_code'', PyInt (cache_id cache)),
      (''flag'', PyInt (if truthy binary then 1 else 0)),
      (''key'', key),
      (''value'', val)]"

definition cache_replace :: "'c perform \<Rightarrow> 'c \<Rightarrow> cache \<Rightarrow> pyval \<Rightarrow> pyval \<Rightarrow> ignite_type option \<Rightarrow> ignite_type option \<Rightarrow> pyval \<Rightarrow> int option \<Rightarrow> (py_error + APIResult) \<times> 'c" where
  "cache_replace perform connection cache key val key_hint value_hint binary query_id =
     (case perform (cache_replace_query_struct key_hint value_hint query_id) connection
             (cache_replace_query_params cache key val binary) (Some [(''success'', Bool)]) of
        (Inl e, connection') \<Rightarrow> (Inl e, connection')
      | (Inr result, connection') \<Rightarrow>
          if status result = 0 then
            (case py_getitem (value result) ''success'' of
               Inl e \<Rightarrow> (Inl e, connection')
             | Inr v \<Rightarrow> (Inr (result\<lparr>value := v\<rparr>), connection'))
          else (Inr result, connection'))"

definition cache_replace_if_equals_query_struct :: "ignite_type option \<Rightarrow> ignite_type option \<Rightarrow> ignite_type option \<Rightarrow> int option \<Rightarrow> query" where
  "cache_replace_if_equals_query_struct key_hint sample_hint value_hint query_id =
     Query OP_CACHE_REPLACE_IF_EQUALS
       [(''hash_code'', Int_type),
        (''flag'', Byte),
        (''key'', hint_or key_hint AnyDataObject),
        (''sample'', hint_or sample_hint AnyDataObject),
        (''value'', hint_or value_hint AnyDataObject)]
       query_id"

definition cache_replace_if_equals_query_params :: "cache \<Rightarrow> pyval \<Rightarrow> pyval \<Rightarrow> pyval \<Rightarrow> pyval \<Rightarrow> (string \<times> pyval) list" where
  "cache_replace_if_equals_query_params cache key sample val binary =
     [(''hash_code'', PyInt (cache_id cache)),
      (''flag'', PyInt (if truthy binary then 1 else 0)),
      (''key'', key),
      (''sample'', sample),
      (''value'', val)]"

definition cache_replace_if_equals :: "'c perform \<Rightarrow> 'c \<Rightarrow> cache \<Rightarrow> pyval \<Rightarrow> pyval \<Rightarrow> pyval \<Rightarrow> ignite_type option \<Rightarrow> ignite_type option \<Rightarrow> ignite_type option \<Rightarrow> pyval \<Rightarrow> int option \<Rightarrow> (py_error + APIResult) \<times> 'c" where
  "cache_replace_if_equals perform connection cache key sample val key_hint sample_hint value_hint binary query_id =
     (case perform (cache_replace_if_equals_query_struct key_hint sample_hint value_hint query_id) connection
             (cache_replace_if_equals_query_params cache key sample val binary) (Some [(''success'', Bool)]) of
        (Inl e, connection') \<Rightarrow> (Inl e, connection')
      | (Inr result, connection') \<Rightarrow>
          if status result = 0 then
            (case py_getitem (value result) ''success'' of
               Inl e \<Rightarrow> (Inl e, connection')
             | Inr v \<Rightarrow> (Inr (result\<lparr>value := v\<rparr>), connection'))
          else (Inr result, connection'))"

definition cache_clear_query_struct :: "int option \<Rightarrow> query" where
  "cache_clear_query_struct query_id =
     Query OP_CACHE_CLEAR
       [(''hash_code'', Int_type),
        (''flag'', Byte)]
       query_id"

definition cache_clear_query_params :: "cache \<Rightarrow> pyval \<Rightarrow> (string \<times> pyval) list" where
  "cache_clear_query_params cache binary =
     [(''hash_code'', PyInt (cache_id cache)),
      (''flag'', PyInt (if truthy binary then 1 else 0))]"

definition cache_clear :: "'c perform \<Rightarrow> 'c \<Rightarrow> cache \<Rightarrow> pyval \<Rightarrow> int option \<Rightarrow> (py_error + APIResult) \<times> 'c" where
  "cache_clear perform connection cache binary query_id =
     perform (cache_clear_query_struct query_id) connection
       (cache_clear_query_params cache binary) None"

definition cache_clear_key_query_struct :: "ignite_type option \<Rightarrow> int option \<Rightarrow> query" where
  "cache_clear_key_query_struct key_hint query_id =
     Query OP_CACHE_CLEAR_KEY
       [(''hash_code'', Int_type),
        (''flag'', Byte),
        (''key'', hint_or key_hint AnyDataObject)]
       query_id"

definition cache_clear_key_query_params :: "cache \<Rightarrow> pyval \<Rightarrow> pyval \<Rightarrow> (string \<times> pyval) list" where
  "cache_clear_key_query_params cache key binary =
     [(''hash_code'', PyInt (cache_id cache)),
      (''flag'', PyInt (if truthy binary then 1 else 0)),
      (''key'', key)]"

definition cache_clear_key :: "'c perform \<Rightarrow> 'c \<Rightarrow> cache \<Rightarrow> pyval \<Rightarrow> ignite_type option \<Rightarrow> pyval \<Rightarrow> int option \<Rightarrow> (py_error + APIResult) \<times> 'c" where
  "cache_clear_key perform connection cache key key_hint binary query_id =
     perform (cache_clear_key_query_struct key_hint query_id) connection
       (cache_clear_key_query_params cache key binary) None"

definition cache_clear_keys_query_struct :: "int option \<Rightarrow> query" where
  "cache_clear_keys_query_struct query_id =
     Query OP_CACHE_CLEAR_KEYS
       [(''hash_code'', Int_type),
        (''flag'', Byte),
        (''keys'', AnyDataArray)]
       query_id"

definition cache_clear_keys_query_params :: "cache \<Rightarrow> pyval \<Rightarrow> pyval \<Rightarrow> (string \<times> pyval) list" where
  "cache_clear_keys_query_params cache keys binary =
     [(''hash_code'', PyInt (cache_id cache)),
      (''flag'', PyInt (if truthy binary then 1 else 0)),
      (''keys'', keys)]"

definition cache_clear_keys :: "'c perform \<Rightarrow> 'c \<Rightarrow> cache \<Rightarrow> pyval \<Rightarrow> pyval \<Rightarrow> int option \<Rightarrow> (py_error + APIResult) \<times> 'c" where
  "cache_clear_keys perform connection cache keys binary query_id =
     perform (cache_clear_keys_query_struct query_id) connection
       (cache_clear_keys_query_params cache keys binary) None"

definition cache_remove_key_query_struct :: "ignite_type option \<Rightarrow> int option \<Rightarrow> query" where
  "cache_remove_key_query_struct key_hint query_id =
     Query OP_CACHE_REMOVE_KEY
       [(''hash_code'', Int_type),
        (''flag'', Byte),
        (''key'', hint_or key_hint AnyDataObject)]
       query_id"

definition cache_remove_key_query_params :: "cache \<Rightarrow> pyval \<Rightarrow> pyval \<Rightarrow> (string \<times> pyval) list" where
  "cache_remove_key_query_params cache key binary =
     [(''hash_code'', PyInt (cache_id cache)),
      (''flag'', PyInt (if truthy binary then 1 else 0)),
      (''key'', key)]"

definition cache_remove_key :: "'c perform \<Rightarrow> 'c \<Rightarrow> cache \<Rightarrow> pyval \<Rightarrow> ignite_type option \<Rightarrow> pyval \<Rightarrow> int option \<Rightarrow> (py_error + APIResult) \<times> 'c" where
  "cache_remove_key perform connection cache key key_hint binary query_id =
     (case perform (cache_remove_key_query_struct key_hint query_id) connection
             (cache_remove_key_query_params cache key binary) (Some [(''success'', Bool)]) of
        (Inl e, connection') \<Rightarrow> (Inl e, connection')
      | (Inr result, connection') \<Rightarrow>
          if status result = 0 then
            (case py_getitem (value result) ''success'' of
               Inl e \<Rightarrow> (Inl e, connection')
             | Inr v \<Rightarrow> (Inr (result\<lparr>value := v\<rparr>), connection'))
          else (Inr result, connection'))"

definition cache_remove_if_equals_query_struct :: "ignite_type option \<Rightarrow> ignite_type option \<Rightarrow> int option \<Rightarrow> query" where
  "cache_remove_if_equals_query_struct key_hint sample_hint query_id =
     Query OP_CACHE_REMOVE_IF_EQUALS
       [(''hash_code'', Int_type),
        (''flag'', Byte),
        (''key'', hint_or key_hint AnyDataObject),
        (''sample'', hint_or sample_hint AnyDataObject)]
       query_id"

definition cache_remove_if_equals_query_params :: "cache \<Rightarrow> pyval \<Rightarrow> pyval \<Rightarrow> pyval \<Rightarrow> (string \<times> pyval) list" where
  "cache_remove_if_equals_query_params cache key sample binary =
     [(''hash_code'', PyInt (cache_id cache)),
      (''flag'', PyInt (if truthy binary then 1 else 0)),
      (''key'', key),
      (''sample'', sample)]"

definition cache_remove_if_equals :: "'c perform \<Rightarrow> 'c \<Rightarrow> cache \<Rightarrow> pyval \<Rightarrow> pyval \<Rightarrow> ignite_type option \<Rightarrow> ignite_type option \<Rightarrow> pyval \<Rightarrow> int option \<Rightarrow> (py_error + APIResult) \<times> 'c" where
  "cache_remove_if_equals perform connection cache key sample key_hint sample_hint binary query_id =
     (case perform (cache_remove_if_equals_query_struct key_hint sample_hint query_id) connection
             (cache_remove_if_equals_query_params cache key sample binary) (Some [(''success'', Bool)]) of
        (Inl e, connection') \<Rightarrow> (Inl e, connection')
      | (Inr result, connection') \<Rightarrow>
          if status result = 0 then
            (case py_getitem (value result) ''success'' of
               Inl e \<Rightarrow> (Inl e, connection')
             | Inr v \<Rightarrow> (Inr (result\<lparr>value := v\<rparr>), connection'))
          else (Inr result, connection'))"

definition cache_remove_keys_query_struct :: "int option \<Rightarrow> query" where
  "cache_remove_keys_query_struct query_id =
     Query OP_CACHE_REMOVE_KEYS
       [(''hash_code'', Int_type),
        (''flag'', Byte),
        (''keys'', AnyDataArray)]
       query_id"

definition cache_remove_keys_query_params :: "cache \<Rightarrow> pyval \<Rightarrow> pyval \<Rightarrow> (string \<times> pyval) list" where
  "cache_remove_keys_query_params cache keys binary =
     [(''hash_code'', PyInt (cache_id cache)),
      (''flag'', PyInt (if truthy binary then 1 else 0)),
      (''keys'', keys)]"

definition cache_remove_keys :: "'c perform \<Rightarrow> 'c \<Rightarrow> cache \<Rightarrow> pyval \<Rightarrow> pyval \<Rightarrow> int option \<Rightarrow> (py_error + APIResult) \<times> 'c" where
  "cache_remove_keys perform connection cache keys binary query_id =
     perform (cache_remove_keys_query_struct query_id) connection
       (cache_remove_keys_query_params cache keys binary) None"

definition cache_remove_all_query_struct :: "int option \<Rightarrow> query" where
  "cache_remove_all_query_struct query_id =
     Query OP_CACHE_REMOVE_ALL
       [(''hash_code'', Int_type),
        (''flag'', Byte)]
       query_id"

definition cache_remove_all_query_params :: "cache \<Rightarrow> pyval \<Rightarrow> (string \<times> pyval) list" where
  "cache_remove_all_query_params cache binary =
     [(''hash_code'', PyInt (cache_id cache)),
      (''flag'', PyInt (if truthy binary then 1 else 0))]"

definition cache_remove_all :: "'c perform \<Rightarrow> 'c \<Rightarrow> cache \<Rightarrow> pyval \<Rightarrow> int option \<Rightarrow> (py_error + APIResult) \<times> 'c" where
  "cache_remove_all perform connection cache binary query_id =
     perform (cache_remove_all_query_struct query_id) connection
       (cache_remove_all_query_params cache binary) None"

definition cache_get_size_query_struct :: "int option \<Rightarrow> query" where
  "cache_get_size_query_struct query_id =
     Query OP_CACHE_GET_SIZE
       [(''hash_code'', Int_type),
        (''flag'', Byte),
        (''peek_modes'', PeekModes)]
       query_id"

definition cache_get_size_query_params :: "cache \<Rightarrow> pyval \<Rightarrow> pyval \<Rightarrow> (string \<times> pyval) list" where
  "cache_get_size_query_params cache peek_modes binary =
     (let peek_modes =
            (if \<not> isinstance_list_tuple peek_modes then
               (if eq_zero peek_modes then PyList [] else PyList [peek_modes])
             else peek_modes)
      in [(''hash_code'', PyInt (cache_id cache)),
          (''flag'', PyInt (if truthy binary then 1 else 0)),
          (''peek_modes'', peek_modes)])"

definition cache_get_size :: "'c perform \<Rightarrow> 'c \<Rightarrow> cache \<Rightarrow> pyval \<Rightarrow> pyval \<Rightarrow> int option \<Rightarrow> (py_error + APIResult) \<times> 'c" where
  "cache_get_size perform connection cache peek_modes binary query_id =
     (case perform (cache_get_size_query_struct query_id) connection
             (cache_get_size_query_params cache peek_modes binary) (Some [(''count'', Long)]) of
        (Inl e, connection') \<Rightarrow> (Inl e, connection')
      | (Inr result, connection') \<Rightarrow>
          if status result = 0 then
            (case py_getitem (value result) ''count'' of
               Inl e \<Rightarrow> (Inl e, connection')
             | Inr v \<Rightarrow> (Inr (result\<lparr>value := v\<rparr>), connection'))
          else (Inr result, connection'))"

section \<open>Requests as seen by the connection\<close>

text \<open>
  What a function sends is observed on a connection that records every request made of
  it: the state of such a connection is the list of the requests so far, each with the
  query, the parameters and the response configuration, and \<open>recording r\<close> appends the
  request and answers with the result \<open>r\<close>. Run from the empty list, a function leaves
  the list of the requests it has sent.
\<close>

type_synonym request =
  "query \<times> (string \<times> pyval) list \<times> (string \<times> ignite_type) list option"

definition recording :: "APIResult \<Rightarrow> request list perform" where
  "recording r query_struct connection query_params response_config =
     (Inr r, connection @ [(query_struct, query_params, response_config)])"

text \<open>The schema and the parameters of the request, when exactly one request was sent.\<close>

fun schema_sent :: "request list \<Rightarrow> (string \<times> ignite_type) list" where
  "schema_sent [(query_struct, query_params, response_config)] = following query_struct"
| "schema_sent sent = []"

fun params_sent :: "request list \<Rightarrow> (string \<times> pyval) list" where
  "params_sent [(query_struct, query_params, response_config)] = query_params"
| "params_sent sent = []"

text \<open>
  The requests sent begin with the cache header when there is one request, the first
  two fields of its schema are \<^verbatim>\<open>('hash_code', Int)\<close> and \<^verbatim>\<open>('flag', Byte)\<close>, and its
  first two parameters are the cache identifier under \<^verbatim>\<open>hash_code\<close> and, under
  \<^verbatim>\<open>flag\<close>, 1 for a true \<^verbatim>\<open>binary\<close> and 0 for a false one.
\<close>

definition begins_with_cache_header :: "cache \<Rightarrow> pyval \<Rightarrow> request list \<Rightarrow> bool" where
  "begins_with_cache_header cache binary sent \<longleftrightarrow>
     length sent = 1
     \<and> take 2 (schema_sent sent) = [(''hash_code'', Int_type), (''flag'', Byte)]
     \<and> take 2 (params_sent sent) =
         [(''hash_code'', PyInt (cache_id cache)),
          (''flag'', PyInt (if truthy binary then 1 else 0))]"

section \<open>Example exchanges\<close>

text \<open>
  Exchanges and results at which the theorems below are instantiated: \<open>answer r\<close>
  answers every request with the result \<open>r\<close> and leaves the connection as it is;
  \<open>counting_answer r\<close> does the same on a connection that counts its exchanges.
\<close>

definition answer :: "APIResult \<Rightarrow> 'c perform" where
  "answer r query_struct connection query_params response_config = (Inr r, connection)"


definition error_result :: APIResult where
  "error_result =
     \<lparr>status = 1, message = str ''Cache does not exist'', response_query_id = 42,
      value = PyNone\<rparr>"

definition success_result :: APIResult where
  "success_result =
     \<lparr>status = 0, message = [], response_query_id = 42,
      value = PyDict [(PyStr (str ''success''), PyBool True)]\<rparr>"

definition value_result :: APIResult where
  "value_result =
     \<lparr>status = 0, message = [], response_query_id = 42,
      value = PyDict [(PyStr (str ''value''), PyStr (str ''a''))]\<rparr>"

definition count_result :: APIResult where
  "count_result =
     \<lparr>status = 0, message = [], response_query_id = 42,
      value = PyDict [(PyStr (str ''count''), PyInt 3)]\<rparr>"

definition data_result :: APIResult where
  "data_result =
     \<lparr>status = 0, message = [], response_query_id = 42,
      value = PyDict [(PyStr (str ''data''), PyDict [(PyInt 1, PyStr (str ''a''))])]\<rparr>"

section \<open>Result objects in a store\<close>






























section \<open>The claims\<close>

text \<open>
  C1. The cache identifier of a name is a function of the name alone: two calls with the
  same cache string yield the same identifier, and that identifier is a signed 32-bit
  integer. An integer cache id is returned unchanged; this holds for every integer, in
  particular for every one that fits in 32 bits.
\<close>

theorem cache_id_deterministic_and_identity_on_integers:
  "(name = name' \<longrightarrow> cache_id (CacheName name) = cache_id (CacheName name'))
   \<and> - (2 ^ 31) \<le> cache_id (CacheName name)
   \<and> cache_id (CacheName name) < 2 ^ 31
   \<and> cache_id (CacheId n) = n"
proof -
  have "- (2 ^ 31) \<le> sint (hashcode name)"
    using sint_ge [of "hashcode name"] by simp
  moreover have "sint (hashcode name) < 2 ^ 31"
    using sint_lt [of "hashcode name"] by simp
  ultimately show ?thesis by simp
qed

theorem cache_id_deterministic_and_identity_on_integers_witness:
  "str ''ab'' = str ''ab''
   \<and> cache_id (CacheName (str ''ab'')) = cache_id (CacheName (str ''ab''))
   \<and> - (2 ^ 31) \<le> cache_id (CacheName (str ''ab''))
   \<and> cache_id (CacheName (str ''ab'')) < 2 ^ 31
   \<and> cache_id (CacheName (str ''ab'')) = 3105
   \<and> cache_id (CacheId (- 5)) = - 5"
  using cache_id_deterministic_and_identity_on_integers
    [of "str ''ab''" "str ''ab''" "- 5"]
  by (simp add: hashcode_def utf16_def str_def)

text \<open>
  C2. For every cache operation of the module, run on a connection that records what is
  sent to it and that answers with any result \<open>r\<close>: the operation sends one request,
  and its schema begins with the field \<^verbatim>\<open>('hash_code', Int)\<close>, whose parameter is
  \<^verbatim>\<open>cache_id(cache)\<close>, immediately followed by the field \<^verbatim>\<open>('flag', Byte)\<close>, whose
  parameter is exactly 1 when \<^verbatim>\<open>binary\<close> is true and exactly 0 otherwise; the fields
  of the operation come after these two.
\<close>

theorem request_begins_with_hash_code_and_flag:
  "begins_with_cache_header cache binary
       (snd (cache_put (recording r) [] cache key val key_hint value_hint binary query_id))
   \<and> begins_with_cache_header cache binary
       (snd (cache_get (recording r) [] cache key key_hint binary query_id))
   \<and> begins_with_cache_header cache binary
       (snd (cache_get_all (recording r) [] cache keys binary query_id))
   \<and> begins_with_cache_header cache binary
       (snd (cache_put_all (recording r) [] cache pairs binary query_id))
   \<and> begins_with_cache_header cache binary
       (snd (cache_contains_key (recording r) [] cache key key_hint binary query_id))
   \<and> begins_with_cache_header cache binary
       (snd (cache_contains_keys (recording r) [] cache keys binary query_id))
   \<and> begins_with_cache_header cache binary
       (snd (cache_get_and_put (recording r) [] cache key val key_hint value_hint binary query_id))
   \<and> begins_with_cache_header cache binary
       (snd (cache_get_and_replace (recording r) [] cache key val key_hint value_hint binary query_id))
   \<and> begins_with_cache_header cache binary
       (snd (cache_get_and_remove (recording r) [] cache key key_hint binary query_id))
   \<and> begins_with_cache_header cache binary
       (snd (cache_put_if_absent (recording r) [] cache key val key_hint value_hint binary query_id))
   \<and> begins_with_cache_header cache binary
       (snd (cache_get_and_put_if_absent (recording r) [] cache key val key_hint value_hint binary query_id))
   \<and> begins_with_cache_header cache binary
       (snd (cache_replace (recording r) [] cache key val key_hint value_hint binary query_id))
   \<and> begins_with_cache_header cache binary
       (snd (cache_replace_if_equals (recording r) [] cache key sample val key_hint sample_hint value_hint binary query_id))
   \<and> begins_with_cache_header cache binary
       (snd (cache_clear (recording r) [] cache binary query_id))
   \<and> begins_with_cache_header cache binary
       (snd (cache_clear_key (recording r) [] cache key key_hint binary query_id))
   \<and> begins_with_cache_header cache binary
       (snd (cache_clear_keys (recording r) [] cache keys binary query_id))
   \<and> begins_with_cache_header cache binary
       (snd (cache_remove_key (recording r) [] cache key key_hint binary query_id))
   \<and> begins_with_cache_header cache binary
       (snd (cache_remove_if_equals (recording r) [] cache key sample key_hint sample_hint binary query_id))
   \<and> begins_with_cache_header cache binary
       (snd (cache_remove_keys (recording r) [] cache keys binary query_id))
   \<and> begins_with_cache_header cache binary
       (snd (cache_remove_all (recording r) [] cache binary query_id))
   \<and> begins_with_cache_header cache binary
       (snd (cache_get_size (recording r) [] cache peek_modes binary query_id))"
  apply (intro conjI)
  subgoal
    by (simp add: begins_with_cache_header_def recording_def cache_put_def
        cache_put_query_struct_def cache_put_query_params_def split: sum.splits)
  subgoal
    by (simp add: begins_with_cache_header_def recording_def cache_get_def
        cache_get_query_struct_def cache_get_query_params_def split: sum.splits)
  subgoal
    by (simp add: begins_with_cache_header_def recording_def cache_get_all_def
        cache_get_all_query_struct_def cache_get_all_query_params_def split: sum.splits)
  subgoal
    by (simp add: begins_with_cache_header_def recording_def cache_put_all_def
        cache_put_all_query_struct_def cache_put_all_query_params_def split: sum.splits)
  subgoal
    by (simp add: begins_with_cache_header_def recording_def cache_contains_key_def
        cache_contains_key_query_struct_def cache_contains_key_query_params_def split: sum.splits)
  subgoal
    by (simp add: begins_with_cache_header_def recording_def cache_contains_keys_def
        cache_contains_keys_query_struct_def cache_contains_keys_query_params_def split: sum.splits)
  subgoal
    by (simp add: begins_with_cache_header_def recording_def cache_get_and_put_def
        cache_get_and_put_query_struct_def cache_get_and_put_query_params_def split: sum.splits)
  subgoal
    by (simp add: begins_with_cache_header_def recording_def cache_get_and_replace_def
        cache_get_and_replace_query_struct_def cache_get_and_replace_query_params_def split: sum.splits)
  subgoal
    by (simp add: begins_with_cache_header_def recording_def cache_get_and_remove_def
        cache_get_and_remove_query_struct_def cache_get_and_remove_query_params_def split: sum.splits)
  subgoal
    by (simp add: begins_with_cache_header_def recording_def cache_put_if_absent_def
        cache_put_if_absent_query_struct_def cache_put_if_absent_query_params_def split: sum.splits)
  subgoal
    by (simp add: begins_with_cache_header_def recording_def cache_get_and_put_if_absent_def
        cache_get_and_put_if_absent_query_struct_def cache_get_and_put_if_absent_query_params_def split: sum.splits)
  subgoal
    by (simp add: begins_with_cache_header_def recording_def cache_replace_def
        cache_replace_query_struct_def cache_replace_query_params_def split: sum.splits)
  subgoal
    by (simp add: begins_with_cache_header_def recording_def cache_replace_if_equals_def
        cache_replace_if_equals_query_struct_def cache_replace_if_equals_query_params_def split: sum.splits)
  subgoal
    by (simp add: begins_with_cache_header_def recording_def cache_clear_def
        cache_clear_query_struct_def cache_clear_query_params_def split: sum.splits)
  subgoal
    by (simp add: begins_with_cache_header_def recording_def cache_clear_key_def
        cache_clear_key_query_struct_def cache_clear_key_query_params_def split: sum.splits)
  subgoal
    by (simp add: begins_with_cache_header_def recording_def cache_clear_keys_def
        cache_clear_keys_query_struct_def cache_clear_keys_query_params_def split: sum.splits)
  subgoal
    by (simp add: begins_with_cache_header_def recording_def cache_remove_key_def
        cache_remove_key_query_struct_def cache_remove_key_query_params_def split: sum.splits)
  subgoal
    by (simp add: begins_with_cache_header_def recording_def cache_remove_if_equals_def
        cache_remove_if_equals_query_struct_def cache_remove_if_equals_query_params_def split: sum.splits)
  subgoal
    by (simp add: begins_with_cache_header_def recording_def cache_remove_keys_def
        cache_remove_keys_query_struct_def cache_remove_keys_query_params_def split: sum.splits)
  subgoal
    by (simp add: begins_with_cache_header_def recording_def cache_remove_all_def
        cache_remove_all_query_struct_def cache_remove_all_query_params_def split: sum.splits)
  subgoal
    by (simp add: begins_with_cache_header_def recording_def cache_get_size_def
        cache_get_size_query_struct_def cache_get_size_query_params_def split: sum.splits)
  done

text \<open>
  C3. For every operation that passes a response configuration: when the exchange
  returns a result with nonzero status, the operation returns that very result, with
  no field of the response unwrapped into \<open>value\<close>, and leaves the connection as the
  exchange left it.
\<close>

theorem nonzero_status_passed_through:
  assumes "status result \<noteq> 0"
  shows
    "(perform (cache_get_query_struct key_hint query_id) connection
          (cache_get_query_params cache key binary) (Some [(''value'', AnyDataObject)])
        = (Inr result, connection')
      \<longrightarrow> cache_get perform connection cache key key_hint binary query_id
          = (Inr result, connection'))
     \<and> (perform (cache_get_all_query_struct query_id) connection
          (cache_get_all_query_params cache keys binary) (Some [(''data'', Map)])
        = (Inr result, connection')
      \<longrightarrow> cache_get_all perform connection cache keys binary query_id
          = (Inr result, connection'))
     \<and> (perform (cache_contains_key_query_struct key_hint query_id) connection
          (cache_contains_key_query_params cache key binary) (Some [(''value'', Bool)])
        = (Inr result, connection')
      \<longrightarrow> cache_contains_key perform connection cache key key_hint binary query_id
          = (Inr result, connection'))
     \<and> (perform (cache_contains_keys_query_struct query_id) connection
          (cache_contains_keys_query_params cache keys binary) (Some [(''value'', Bool)])
        = (Inr result, connection')
      \<longrightarrow> cache_contains_keys perform connection cache keys binary query_id
          = (Inr result, connection'))
     \<and> (perform (cache_get_and_put_query_struct key_hint value_hint query_id) connection
          (cache_get_and_put_query_params cache key val binary) (Some [(''value'', AnyDataObject)])
        = (Inr result, connection')
      \<longrightarrow> cache_get_and_put perform connection cache key val key_hint value_hint binary query_id
          = (Inr result, connection'))
     \<and> (perform (cache_get_and_replace_query_struct key_hint value_hint query_id) connection
          (cache_get_and_replace_query_params cache key val binary) (Some [(''value'', AnyDataObject)])
        = (Inr result, connection')
      \<longrightarrow> cache_get_and_replace perform connection cache key val key_hint value_hint binary query_id
          = (Inr result, connection'))
     \<and> (perform (cache_get_and_remove_query_struct key_hint query_id) connection
          (cache_get_and_remove_query_params cache key binary) (Some [(''value'', AnyDataObject)])
        = (Inr result, connection')
      \<longrightarrow> cache_get_and_remove perform connection cache key key_hint binary query_id
          = (Inr result, connection'))
     \<and> (perform (cache_put_if_absent_query_struct key_hint value_hint query_id) connection
          (cache_put_if_absent_query_params cache key val binary) (Some [(''success'', Bool)])
        = (Inr result, connection')
      \<longrightarrow> cache_put_if_absent perform connection cache key val key_hint value_hint binary query_id
          = (Inr result, connection'))
     \<and> (perform (cache_get_and_put_if_absent_query_struct key_hint value_hint query_id) connection
          (cache_get_and_put_if_absent_query_params cache key val binary) (Some [(''value'', AnyDataObject)])
        = (Inr result, connection')
      \<longrightarrow> cache_get_and_put_if_absent perform connection cache key val key_hint value_hint binary query_id
          = (Inr result, connection'))
     \<and> (perform (cache_replace_query_struct key_hint value_hint query_id) connection
          (cache_replace_query_params cache key val binary) (Some [(''success'', Bool)])
        = (Inr result, connection')
      \<longrightarrow> cache_replace perform connection cache key val key_hint value_hint binary query_id
          = (Inr result, connection'))
     \<and> (perform (cache_replace_if_equals_query_struct key_hint sample_hint value_hint query_id) connection
          (cache_replace_if_equals_query_params cache key sample val binary) (Some [(''success'', Bool)])
        = (Inr result, connection')
      \<longrightarrow> cache_replace_if_equals perform connection cache key sample val key_hint sample_hint value_hint binary query_id
          = (Inr result, connection'))
     \<and> (perform (cache_remove_key_query_struct key_hint query_id) connection
          (cache_remove_key_query_params cache key binary) (Some [(''success'', Bool)])
        = (Inr result, connection')
      \<longrightarrow> cache_remove_key perform connection cache key key_hint binary query_id
          = (Inr result, connection'))
     \<and> (perform (cache_remove_if_equals_query_struct key_hint sample_hint query_id) connection
          (cache_remove_if_equals_query_params cache key sample binary) (Some [(''success'', Bool)])
        = (Inr result, connection')
      \<longrightarrow> cache_remove_if_equals perform connection cache key sample key_hint sample_hint binary query_id
          = (Inr result, connection'))
     \<and> (perform (cache_get_size_query_struct query_id) connection
          (cache_get_size_query_params cache peek_modes binary) (Some [(''count'', Long)])
        = (Inr result, connection')
      \<longrightarrow> cache_get_size perform connection cache peek_modes binary query_id
          = (Inr result, connection'))"
  using assms
  by (simp_all add:
      cache_get_def
      cache_get_all_def
      cache_contains_key_def
      cache_contains_keys_def
      cache_get_and_put_def
      cache_get_and_replace_def
      cache_get_and_remove_def
      cache_put_if_absent_def
      cache_get_and_put_if_absent_def
      cache_replace_def
      cache_replace_if_equals_def
      cache_remove_key_def
      cache_remove_if_equals_def
      cache_get_size_def)

theorem nonzero_status_passed_through_witness:
  "status error_result \<noteq> 0
   \<and> cache_get (answer error_result) ()
         (CacheId 7) (PyInt 1) None (PyBool False) (Some 42)
       = (Inr error_result, ())
   \<and> cache_get_all (answer error_result) ()
         (CacheId 7) (PyList [PyInt 1, PyInt 2]) (PyBool False) (Some 42)
       = (Inr error_result, ())
   \<and> cache_contains_key (answer error_result) ()
         (CacheId 7) (PyInt 1) None (PyBool False) (Some 42)
       = (Inr error_result, ())
   \<and> cache_contains_keys (answer error_result) ()
         (CacheId 7) (PyList [PyInt 1, PyInt 2]) (PyBool False) (Some 42)
       = (Inr error_result, ())
   \<and> cache_get_and_put (answer error_result) ()
         (CacheId 7) (PyInt 1) (PyStr (str ''a'')) None (Some (DataType ''String'')) (PyBool False) (Some 42)
       = (Inr error_result, ())
   \<and> cache_get_and_replace (answer error_result) ()
         (CacheId 7) (PyInt 1) (PyStr (str ''a'')) None (Some (DataType ''String'')) (PyBool False) (Some 42)
       = (Inr error_result, ())
   \<and> cache_get_and_remove (answer error_result) ()
         (CacheId 7) (PyInt 1) None (PyBool False) (Some 42)
       = (Inr error_result, ())
   \<and> cache_put_if_absent (answer error_result) ()
         (CacheId 7) (PyInt 1) (PyStr (str ''a'')) None (Some (DataType ''String'')) (PyBool False) (Some 42)
       = (Inr error_result, ())
   \<and> cache_get_and_put_if_absent (answer error_result) ()
         (CacheId 7) (PyInt 1) (PyStr (str ''a'')) None (Some (DataType ''String'')) (PyBool False) (Some 42)
       = (Inr error_result, ())
   \<and> cache_replace (answer error_result) ()
         (CacheId 7) (PyInt 1) (PyStr (str ''a'')) None (Some (DataType ''String'')) (PyBool False) (Some 42)
       = (Inr error_result, ())
   \<and> cache_replace_if_equals (answer error_result) ()
         (CacheId 7) (PyInt 1) (PyStr (str ''b'')) (PyStr (str ''a'')) None None (Some (DataType ''String'')) (PyBool False) (Some 42)
       = (Inr error_result, ())
   \<and> cache_remove_key (answer error_result) ()
         (CacheId 7) (PyInt 1) None (PyBool False) (Some 42)
       = (Inr error_result, ())
   \<and> cache_remove_if_equals (answer error_result) ()
         (CacheId 7) (PyInt 1) (PyStr (str ''b'')) None None (PyBool False) (Some 42)
       = (Inr error_result, ())
   \<and> cache_get_size (answer error_result) ()
         (CacheId 7) (PyInt 0) (PyBool False) (Some 42)
       = (Inr error_result, ())"
proof -
  have nonzero: "status error_result \<noteq> 0"
    by (simp add: error_result_def)
  show ?thesis
    using nonzero nonzero_status_passed_through [OF nonzero, where
        perform = "answer error_result" and connection = "()" and connection' = "()" and
        cache = "CacheId 7" and
        key = "PyInt 1" and
        val = "PyStr (str ''a'')" and
        sample = "PyStr (str ''b'')" and
        keys = "PyList [PyInt 1, PyInt 2]" and
        peek_modes = "PyInt 0" and
        key_hint = "None" and
        value_hint = "Some (DataType ''String'')" and
        sample_hint = "None" and
        binary = "PyBool False" and
        query_id = "Some 42"]
    by (simp add: answer_def)
qed

text \<open>
  C4. For every operation whose response configuration is a single scalar field
  (\<^verbatim>\<open>value\<close>, \<^verbatim>\<open>success\<close> or \<^verbatim>\<open>count\<close>): when the exchange returns status 0 and the
  decoded response holds a field of that name, the operation returns the result with
  \<open>value\<close> set to that field. In particular, for \<open>cache_replace_if_equals\<close> a response
  with the fields \<^verbatim>\<open>{'success': True}\<close> and status 0 gives \<open>value\<close> \<^verbatim>\<open>True\<close> and
  status 0.
\<close>

theorem scalar_field_unwrapped_on_success:
  assumes "status result = 0" and "value result = PyDict decoded"
  shows
    "(perform (cache_get_query_struct key_hint query_id) connection
          (cache_get_query_params cache key binary) (Some [(''value'', AnyDataObject)])
        = (Inr result, connection')
      \<and> map_of decoded (PyStr (str ''value'')) = Some v
      \<longrightarrow> cache_get perform connection cache key key_hint binary query_id
          = (Inr (result\<lparr>value := v\<rparr>), connection'))
     \<and> (perform (cache_contains_key_query_struct key_hint query_id) connection
          (cache_contains_key_query_params cache key binary) (Some [(''value'', Bool)])
        = (Inr result, connection')
      \<and> map_of decoded (PyStr (str ''value'')) = Some v
      \<longrightarrow> cache_contains_key perform connection cache key key_hint binary query_id
          = (Inr (result\<lparr>value := v\<rparr>), connection'))
     \<and> (perform (cache_contains_keys_query_struct query_id) connection
          (cache_contains_keys_query_params cache keys binary) (Some [(''value'', Bool)])
        = (Inr result, connection')
      \<and> map_of decoded (PyStr (str ''value'')) = Some v
      \<longrightarrow> cache_contains_keys perform connection cache keys binary query_id
          = (Inr (result\<lparr>value := v\<rparr>), connection'))
     \<and> (perform (cache_get_and_put_query_struct key_hint value_hint query_id) connection
          (cache_get_and_put_query_params cache key val binary) (Some [(''value'', AnyDataObject)])
        = (Inr result, connection')
      \<and> map_of decoded (PyStr (str ''value'')) = Some v
      \<longrightarrow> cache_get_and_put perform connection cache key val key_hint value_hint binary query_id
          = (Inr (result\<lparr>value := v\<rparr>), connection'))
     \<and> (perform (cache_get_and_replace_query_struct key_hint value_hint query_id) connection
          (cache_get_and_replace_query_params cache key val binary) (Some [(''value'', AnyDataObject)])
        = (Inr result, connection')
      \<and> map_of decoded (PyStr (str ''value'')) = Some v
      \<longrightarrow> cache_get_and_replace perform connection cache key val key_hint value_hint binary query_id
          = (Inr (result\<lparr>value := v\<rparr>), connection'))
     \<and> (perform (cache_get_and_remove_query_struct key_hint query_id) connection
          (cache_get_and_remove_query_params cache key binary) (Some [(''value'', AnyDataObject)])
        = (Inr result, connection')
      \<and> map_of decoded (PyStr (str ''value'')) = Some v
      \<longrightarrow> cache_get_and_remove perform connection cache key key_hint binary query_id
          = (Inr (result\<lparr>value := v\<rparr>), connection'))
     \<and> (perform (cache_put_if_absent_query_struct key_hint value_hint query_id) connection
          (cache_put_if_absent_query_params cache key val binary) (Some [(''success'', Bool)])
        = (Inr result, connection')
      \<and> map_of decoded (PyStr (str ''success'')) = Some v
      \<longrightarrow> cache_put_if_absent perform connection cache key val key_hint value_hint binary query_id
          = (Inr (result\<lparr>value := v\<rparr>), connection'))
     \<and> (perform (cache_get_and_put_if_absent_query_struct key_hint value_hint query_id) connection
          (cache_get_and_put_if_absent_query_params cache key val binary) (Some [(''value'', AnyDataObject)])
        = (Inr result, connection')
      \<and> map_of decoded (PyStr (str ''value'')) = Some v
      \<longrightarrow> cache_get_and_put_if_absent perform connection cache key val key_hint value_hint binary query_id
          = (Inr (result\<lparr>value := v\<rparr>), connection'))
     \<and> (perform (cache_replace_query_struct key_hint value_hint query_id) connection
          (cache_replace_query_params cache key val binary) (Some [(''success'', Bool)])
        = (Inr result, connection')
      \<and> map_of decoded (PyStr (str ''success'')) = Some v
      \<longrightarrow> cache_replace perform connection cache key val key_hint value_hint binary query_id
          = (Inr (result\<lparr>value := v\<rparr>), connection'))
     \<and> (perform (cache_replace_if_equals_query_struct key_hint sample_hint value_hint query_id) connection
          (cache_replace_if_equals_query_params cache key sample val binary) (Some [(''success'', Bool)])
        = (Inr result, connection')
      \<and> map_of decoded (PyStr (str ''success'')) = Some v
      \<longrightarrow> cache_replace_if_equals perform connection cache key sample val key_hint sample_hint value_hint binary query_id
          = (Inr (result\<lparr>value := v\<rparr>), connection'))
     \<and> (perform (cache_remove_key_query_struct key_hint query_id) connection
          (cache_remove_key_query_params cache key binary) (Some [(''success'', Bool)])
        = (Inr result, connection')
      \<and> map_of decoded (PyStr (str ''success'')) = Some v
      \<longrightarrow> cache_remove_key perform connection cache key key_hint binary query_id
          = (Inr (result\<lparr>value := v\<rparr>), connection'))
     \<and> (perform (cache_remove_if_equals_query_struct key_hint sample_hint query_id) connection
          (cache_remove_if_equals_query_params cache key sample binary) (Some [(''success'', Bool)])
        = (Inr result, connection')
      \<and> map_of decoded (PyStr (str ''success'')) = Some v
      \<longrightarrow> cache_remove_if_equals perform connection cache key sample key_hint sample_hint binary query_id
          = (Inr (result\<lparr>value := v\<rparr>), connection'))
     \<and> (perform (cache_get_size_query_struct query_id) connection
          (cache_get_size_query_params cache peek_modes binary) (Some [(''count'', Long)])
        = (Inr result, connection')
      \<and> map_of decoded (PyStr (str ''count'')) = Some v
      \<longrightarrow> cache_get_size perform connection cache peek_modes binary query_id
          = (Inr (result\<lparr>value := v\<rparr>), connection'))
     \<and> (perform (cache_replace_if_equals_query_struct key_hint sample_hint value_hint query_id) connection
          (cache_replace_if_equals_query_params cache key sample val binary) (Some [(''success'', Bool)])
        = (Inr result, connection')
      \<and> decoded = [(PyStr (str ''success''), PyBool True)]
      \<longrightarrow> cache_replace_if_equals perform connection cache key sample val key_hint sample_hint value_hint binary query_id
          = (Inr (result\<lparr>value := PyBool True\<rparr>), connection')
        \<and> status (result\<lparr>value := PyBool True\<rparr>) = 0)"
  using assms
  by (simp_all add: py_getitem_def dict_getitem_def
      cache_get_def
      cache_contains_key_def
      cache_contains_keys_def
      cache_get_and_put_def
      cache_get_and_replace_def
      cache_get_and_remove_def
      cache_put_if_absent_def
      cache_get_and_put_if_absent_def
      cache_replace_def
      cache_replace_if_equals_def
      cache_remove_key_def
      cache_remove_if_equals_def
      cache_get_size_def)

theorem scalar_field_unwrapped_on_success_witness:
  "status success_result = 0
   \<and> value success_result = PyDict [(PyStr (str ''success''), PyBool True)]
   \<and> cache_replace_if_equals (answer success_result) ()
         (CacheId 7) (PyInt 1) (PyStr (str ''b'')) (PyStr (str ''a'')) None None (Some (DataType ''String'')) (PyBool False) (Some 42)
       = (Inr (success_result\<lparr>value := PyBool True\<rparr>), ())
   \<and> status (success_result\<lparr>value := PyBool True\<rparr>) = 0
   \<and> cache_get (answer value_result) ()
         (CacheId 7) (PyInt 1) None (PyBool False) (Some 42)
       = (Inr (value_result\<lparr>value := PyStr (str ''a'')\<rparr>), ())
   \<and> cache_get_size (answer count_result) ()
         (CacheId 7) (PyInt 0) (PyBool False) (Some 42)
       = (Inr (count_result\<lparr>value := PyInt 3\<rparr>), ())"
proof -
  have s: "status success_result = 0"
    "value success_result = PyDict [(PyStr (str ''success''), PyBool True)]"
    by (simp_all add: success_result_def)
  have g: "status value_result = 0"
    "value value_result = PyDict [(PyStr (str ''value''), PyStr (str ''a''))]"
    by (simp_all add: value_result_def)
  have c: "status count_result = 0"
    "value count_result = PyDict [(PyStr (str ''count''), PyInt 3)]"
    by (simp_all add: count_result_def)
  show ?thesis
    using s
      scalar_field_unwrapped_on_success [OF s, where
        perform = "answer success_result" and connection = "()" and connection' = "()" and
        v = "PyBool True" and
        cache = "CacheId 7" and
        key = "PyInt 1" and
        val = "PyStr (str ''a'')" and
        sample = "PyStr (str ''b'')" and
        keys = "PyList [PyInt 1, PyInt 2]" and
        peek_modes = "PyInt 0" and
        key_hint = "None" and
        value_hint = "Some (DataType ''String'')" and
        sample_hint = "None" and
        binary = "PyBool False" and
        query_id = "Some 42"]
      scalar_field_unwrapped_on_success [OF g, where
        perform = "answer value_result" and connection = "()" and connection' = "()" and
        v = "PyStr (str ''a'')" and
        cache = "CacheId 7" and
        key = "PyInt 1" and
        val = "PyStr (str ''a'')" and
        sample = "PyStr (str ''b'')" and
        keys = "PyList [PyInt 1, PyInt 2]" and
        peek_modes = "PyInt 0" and
        key_hint = "None" and
        value_hint = "Some (DataType ''String'')" and
        sample_hint = "None" and
        binary = "PyBool False" and
        query_id = "Some 42"]
      scalar_field_unwrapped_on_success [OF c, where
        perform = "answer count_result" and connection = "()" and connection' = "()" and
        v = "PyInt 3" and
        cache = "CacheId 7" and
        key = "PyInt 1" and
        val = "PyStr (str ''a'')" and
        sample = "PyStr (str ''b'')" and
        keys = "PyList [PyInt 1, PyInt 2]" and
        peek_modes = "PyInt 0" and
        key_hint = "None" and
        value_hint = "Some (DataType ''String'')" and
        sample_hint = "None" and
        binary = "PyBool False" and
        query_id = "Some 42"]
    by (simp add: answer_def str_def)
qed

text \<open>
  C5. \<open>cache_put\<close>, \<open>cache_put_all\<close>, \<open>cache_clear\<close> and \<open>cache_remove_all\<close> perform their
  exchange with no response configuration and return what the exchange returns, with
  no value projected: the status alone tells success.
\<close>

theorem no_response_schema_returns_exchange_result:
  "cache_put perform connection cache key val key_hint value_hint binary query_id
       = perform (cache_put_query_struct key_hint value_hint query_id) connection
           (cache_put_query_params cache key val binary) None
   \<and> cache_put_all perform connection cache pairs binary query_id
       = perform (cache_put_all_query_struct query_id) connection
           (cache_put_all_query_params cache pairs binary) None
   \<and> cache_clear perform connection cache binary query_id
       = perform (cache_clear_query_struct query_id) connection
           (cache_clear_query_params cache binary) None
   \<and> cache_remove_all perform connection cache binary query_id
       = perform (cache_remove_all_query_struct query_id) connection
           (cache_remove_all_query_params cache binary) None"
  by (simp_all add: cache_put_def cache_put_all_def cache_clear_def cache_remove_all_def)

text \<open>
  C6. For every operation that accepts a type hint (\<^verbatim>\<open>key_hint\<close>, \<^verbatim>\<open>value_hint\<close>,
  \<^verbatim>\<open>sample_hint\<close>), the type bound to the field in the schema of the request it sends
  is the hint when one is given and \<^verbatim>\<open>AnyDataObject\<close> when it is absent.
\<close>

theorem hint_bound_or_any_data_object:
  "map_of (schema_sent
             (snd (cache_put (recording r) [] cache key val key_hint value_hint binary query_id)))
       ''key''
       = Some (case key_hint of Some h \<Rightarrow> h | None \<Rightarrow> AnyDataObject)
   \<and> map_of (schema_sent
             (snd (cache_put (recording r) [] cache key val key_hint value_hint binary query_id)))
       ''value''
       = Some (case value_hint of Some h \<Rightarrow> h | None \<Rightarrow> AnyDataObject)
   \<and> map_of (schema_sent
             (snd (cache_get (recording r) [] cache key key_hint binary query_id)))
       ''key''
       = Some (case key_hint of Some h \<Rightarrow> h | None \<Rightarrow> AnyDataObject)
   \<and> map_of (schema_sent
             (snd (cache_contains_key (recording r) [] cache key key_hint binary query_id)))
       ''key''
       = Some (case key_hint of Some h \<Rightarrow> h | None \<Rightarrow> AnyDataObject)
   \<and> map_of (schema_sent
             (snd (cache_get_and_put (recording r) [] cache key val key_hint value_hint binary query_id)))
       ''key''
       = Some (case key_hint of Some h \<Rightarrow> h | None \<Rightarrow> AnyDataObject)
   \<and> map_of (schema_sent
             (snd (cache_get_and_put (recording r) [] cache key val key_hint value_hint binary query_id)))
       ''value''
       = Some (case value_hint of Some h \<Rightarrow> h | None \<Rightarrow> AnyDataObject)
   \<and> map_of (schema_sent
             (snd (cache_get_and_replace (recording r) [] cache key val key_hint value_hint binary query_id)))
       ''key''
       = Some (case key_hint of Some h \<Rightarrow> h | None \<Rightarrow> AnyDataObject)
   \<and> map_of (schema_sent
             (snd (cache_get_and_replace (recording r) [] cache key val key_hint value_hint binary query_id)))
       ''value''
       = Some (case value_hint of Some h \<Rightarrow> h | None \<Rightarrow> AnyDataObject)
   \<and> map_of (schema_sent
             (snd (cache_get_and_remove (recording r) [] cache key key_hint binary query_id)))
       ''key''
       = Some (case key_hint of Some h \<Rightarrow> h | None \<Rightarrow> AnyDataObject)
   \<and> map_of (schema_sent
             (snd (cache_put_if_absent (recording r) [] cache key val key_hint value_hint binary query_id)))
       ''key''
       = Some (case key_hint of Some h \<Rightarrow> h | None \<Rightarrow> AnyDataObject)
   \<and> map_of (schema_sent
             (snd (cache_put_if_absent (recording r) [] cache key val key_hint value_hint binary query_id)))
       ''value''
       = Some (case value_hint of Some h \<Rightarrow> h | None \<Rightarrow> AnyDataObject)
   \<and> map_of (schema_sent
             (snd (cache_get_and_put_if_absent (recording r) [] cache key val key_hint value_hint binary query_id)))
       ''key''
       = Some (case key_hint of Some h \<Rightarrow> h | None \<Rightarrow> AnyDataObject)
   \<and> map_of (schema_sent
             (snd (cache_get_and_put_if_absent (recording r) [] cache key val key_hint value_hint binary query_id)))
       ''value''
       = Some (case value_hint of Some h \<Rightarrow> h | None \<Rightarrow> AnyDataObject)
   \<and> map_of (schema_sent
             (snd (cache_replace (recording r) [] cache key val key_hint value_hint binary query_id)))
       ''key''
       = Some (case key_hint of Some h \<Rightarrow> h | None \<Rightarrow> AnyDataObject)
   \<and> map_of (schema_sent
             (snd (cache_replace (recording r) [] cache key val key_hint value_hint binary query_id)))
       ''value''
       = Some (case value_hint of Some h \<Rightarrow> h | None \<Rightarrow> AnyDataObject)
   \<and> map_of (schema_sent
             (snd (cache_replace_if_equals (recording r) [] cache key sample val key_hint sample_hint value_hint binary query_id)))
       ''key''
       = Some (case key_hint of Some h \<Rightarrow> h | None \<Rightarrow> AnyDataObject)
   \<and> map_of (schema_sent
             (snd (cache_replace_if_equals (recording r) [] cache key sample val key_hint sample_hint value_hint binary query_id)))
       ''sample''
       = Some (case sample_hint of Some h \<Rightarrow> h | None \<Rightarrow> AnyDataObject)
   \<and> map_of (schema_sent
             (snd (cache_replace_if_equals (recording r) [] cache key sample val key_hint sample_hint value_hint binary query_id)))
       ''value''
       = Some (case value_hint of Some h \<Rightarrow> h | None \<Rightarrow> AnyDataObject)
   \<and> map_of (schema_sent
             (snd (cache_clear_key (recording r) [] cache key key_hint binary query_id)))
       ''key''
       = Some (case key_hint of Some h \<Rightarrow> h | None \<Rightarrow> AnyDataObject)
   \<and> map_of (schema_sent
             (snd (cache_remove_key (recording r) [] cache key key_hint binary query_id)))
       ''key''
       = Some (case key_hint of Some h \<Rightarrow> h | None \<Rightarrow> AnyDataObject)
   \<and> map_of (schema_sent
             (snd (cache_remove_if_equals (recording r) [] cache key sample key_hint sample_hint binary query_id)))
       ''key''
       = Some (case key_hint of Some h \<Rightarrow> h | None \<Rightarrow> AnyDataObject)
   \<and> map_of (schema_sent
             (snd (cache_remove_if_equals (recording r) [] cache key sample key_hint sample_hint binary query_id)))
       ''sample''
       = Some (case sample_hint of Some h \<Rightarrow> h | None \<Rightarrow> AnyDataObject)"
  apply (intro conjI)
  subgoal
    by (cases key_hint) (simp_all add: recording_def cache_put_def cache_put_query_struct_def split: sum.splits)
  subgoal
    by (cases value_hint) (simp_all add: recording_def cache_put_def cache_put_query_struct_def split: sum.splits)
  subgoal
    by (cases key_hint) (simp_all add: recording_def cache_get_def cache_get_query_struct_def split: sum.splits)
  subgoal
    by (cases key_hint) (simp_all add: recording_def cache_contains_key_def cache_contains_key_query_struct_def split: sum.splits)
  subgoal
    by (cases key_hint) (simp_all add: recording_def cache_get_and_put_def cache_get_and_put_query_struct_def split: sum.splits)
  subgoal
    by (cases value_hint) (simp_all add: recording_def cache_get_and_put_def cache_get_and_put_query_struct_def split: sum.splits)
  subgoal
    by (cases key_hint) (simp_all add: recording_def cache_get_and_replace_def cache_get_and_replace_query_struct_def split: sum.splits)
  subgoal
    by (cases value_hint) (simp_all add: recording_def cache_get_and_replace_def cache_get_and_replace_query_struct_def split: sum.splits)
  subgoal
    by (cases key_hint) (simp_all add: recording_def cache_get_and_remove_def cache_get_and_remove_query_struct_def split: sum.splits)
  subgoal
    by (cases key_hint) (simp_all add: recording_def cache_put_if_absent_def cache_put_if_absent_query_struct_def split: sum.splits)
  subgoal
    by (cases value_hint) (simp_all add: recording_def cache_put_if_absent_def cache_put_if_absent_query_struct_def split: sum.splits)
  subgoal
    by (cases key_hint) (simp_all add: recording_def cache_get_and_put_if_absent_def cache_get_and_put_if_absent_query_struct_def split: sum.splits)
  subgoal
    by (cases value_hint) (simp_all add: recording_def cache_get_and_put_if_absent_def cache_get_and_put_if_absent_query_struct_def split: sum.splits)
  subgoal
    by (cases key_hint) (simp_all add: recording_def cache_replace_def cache_replace_query_struct_def split: sum.splits)
  subgoal
    by (cases value_hint) (simp_all add: recording_def cache_replace_def cache_replace_query_struct_def split: sum.splits)
  subgoal
    by (cases key_hint) (simp_all add: recording_def cache_replace_if_equals_def cache_replace_if_equals_query_struct_def split: sum.splits)
  subgoal
    by (cases sample_hint) (simp_all add: recording_def cache_replace_if_equals_def cache_replace_if_equals_query_struct_def split: sum.splits)
  subgoal
    by (cases value_hint) (simp_all add: recording_def cache_replace_if_equals_def cache_replace_if_equals_query_struct_def split: sum.splits)
  subgoal
    by (cases key_hint) (simp_all add: recording_def cache_clear_key_def cache_clear_key_query_struct_def split: sum.splits)
  subgoal
    by (cases key_hint) (simp_all add: recording_def cache_remove_key_def cache_remove_key_query_struct_def split: sum.splits)
  subgoal
    by (cases key_hint) (simp_all add: recording_def cache_remove_if_equals_def cache_remove_if_equals_query_struct_def split: sum.splits)
  subgoal
    by (cases sample_hint) (simp_all add: recording_def cache_remove_if_equals_def cache_remove_if_equals_query_struct_def split: sum.splits)
  done

text \<open>
  C7. For \<open>cache_get_all\<close>, when the exchange returns status 0 and the decoded response
  holds the mapping of keys to values under the field \<^verbatim>\<open>data\<close>, the returned result's
  \<open>value\<close> is that mapping itself, not wrapped in anything.
\<close>

theorem cache_get_all_exposes_data_mapping:
  assumes "perform (cache_get_all_query_struct query_id) connection
             (cache_get_all_query_params cache keys binary) (Some [(''data'', Map)])
             = (Inr result, connection')"
    and "status result = 0"
    and "value result = PyDict decoded"
    and "map_of decoded (PyStr (str ''data'')) = Some mapping"
  shows "cache_get_all perform connection cache keys binary query_id
           = (Inr (result\<lparr>value := mapping\<rparr>), connection')"
  using assms by (simp add: cache_get_all_def py_dict_def dict_getitem_def)

theorem cache_get_all_exposes_data_mapping_witness:
  "status data_result = 0
   \<and> value data_result = PyDict [(PyStr (str ''data''), PyDict [(PyInt 1, PyStr (str ''a''))])]
   \<and> cache_get_all (answer data_result) ()
         (CacheId 7) (PyList [PyInt 1, PyInt 2]) (PyBool False) (Some 42)
       = (Inr (data_result\<lparr>value := PyDict [(PyInt 1, PyStr (str ''a''))]\<rparr>), ())"
proof -
  have d: "status data_result = 0"
    "value data_result = PyDict [(PyStr (str ''data''), PyDict [(PyInt 1, PyStr (str ''a''))])]"
    by (simp_all add: data_result_def)
  show ?thesis
    using d cache_get_all_exposes_data_mapping [where
        perform = "answer data_result" and connection = "()" and connection' = "()" and
        result = data_result and
        decoded = "[(PyStr (str ''data''), PyDict [(PyInt 1, PyStr (str ''a''))])]" and
        mapping = "PyDict [(PyInt 1, PyStr (str ''a''))]" and
        cache = "CacheId 7" and keys = "PyList [PyInt 1, PyInt 2]" and
        binary = "PyBool False" and query_id = "Some 42"]
    by (simp add: answer_def)
qed

text \<open>
  C8. \<open>cache_get_size\<close> normalises \<^verbatim>\<open>peek_modes\<close> before it is sent: a list or a
  tuple is sent unchanged; otherwise the value 0 (any value that Python's \<^verbatim>\<open>==\<close>
  equates with 0) becomes the empty list and any other value becomes the list holding
  just that value.
\<close>

theorem cache_get_size_normalises_peek_modes:
  "map_of (params_sent (snd (cache_get_size (recording r) [] cache (PyList xs) binary query_id)))
         ''peek_modes''
       = Some (PyList xs)
   \<and> map_of (params_sent (snd (cache_get_size (recording r) [] cache (PyTuple xs) binary query_id)))
         ''peek_modes''
       = Some (PyTuple xs)
   \<and> map_of (params_sent (snd (cache_get_size (recording r) [] cache (PyInt 0) binary query_id)))
         ''peek_modes''
       = Some (PyList [])
   \<and> (\<not> isinstance_list_tuple peek_modes \<and> eq_zero peek_modes
      \<longrightarrow> map_of (params_sent
                  (snd (cache_get_size (recording r) [] cache peek_modes binary query_id)))
            ''peek_modes''
          = Some (PyList []))
   \<and> (\<not> isinstance_list_tuple peek_modes \<and> \<not> eq_zero peek_modes
      \<longrightarrow> map_of (params_sent
                  (snd (cache_get_size (recording r) [] cache peek_modes binary query_id)))
            ''peek_modes''
          = Some (PyList [peek_modes]))"
  by (simp add: recording_def cache_get_size_def cache_get_size_query_params_def
      split: sum.splits)

theorem cache_get_size_normalises_peek_modes_witness:
  "\<not> isinstance_list_tuple (PyBool False) \<and> eq_zero (PyBool False)
   \<and> map_of (params_sent (snd (cache_get_size (recording count_result) [] (CacheId 7)
                (PyBool False) (PyBool False) None)))
         ''peek_modes''
       = Some (PyList [])
   \<and> \<not> isinstance_list_tuple (PyInt 2) \<and> \<not> eq_zero (PyInt 2)
   \<and> map_of (params_sent (snd (cache_get_size (recording count_result) [] (CacheId 7)
                (PyInt 2) (PyBool False) None)))
         ''peek_modes''
       = Some (PyList [PyInt 2])"
  using
    cache_get_size_normalises_peek_modes [where
        r = count_result and cache = "CacheId 7" and xs = "[]" and
        binary = "PyBool False" and query_id = None and peek_modes = "PyBool False"]
    cache_get_size_normalises_peek_modes [where
        r = count_result and cache = "CacheId 7" and xs = "[]" and
        binary = "PyBool False" and query_id = None and peek_modes = "PyInt 2"]
  by simp



text \<open>
  C10. In the requests of the conditional operations the sample comes before the new
  value: \<open>cache_replace_if_equals\<close> binds its fields in the order \<^verbatim>\<open>hash_code\<close>,
  \<^verbatim>\<open>flag\<close>, \<^verbatim>\<open>key\<close>, \<^verbatim>\<open>sample\<close>, \<^verbatim>\<open>value\<close>, and \<open>cache_remove_if_equals\<close> in the
  order \<^verbatim>\<open>hash_code\<close>, \<^verbatim>\<open>flag\<close>, \<^verbatim>\<open>key\<close>, \<^verbatim>\<open>sample\<close>, in the schema and in the
  parameters of the request it sends alike.
\<close>

theorem conditional_operations_field_order:
  "map fst (schema_sent (snd (cache_replace_if_equals (recording r) [] cache key sample val
              key_hint sample_hint value_hint binary query_id)))
       = [''hash_code'', ''flag'', ''key'', ''sample'', ''value'']
   \<and> params_sent (snd (cache_replace_if_equals (recording r) [] cache key sample val
          key_hint sample_hint value_hint binary query_id))
       = [(''hash_code'', PyInt (cache_id cache)),
          (''flag'', PyInt (if truthy binary then 1 else 0)),
          (''key'', key), (''sample'', sample), (''value'', val)]
   \<and> map fst (schema_sent (snd (cache_remove_if_equals (recording r) [] cache key sample
                  key_hint sample_hint binary query_id)))
       = [''hash_code'', ''flag'', ''key'', ''sample'']
   \<and> params_sent (snd (cache_remove_if_equals (recording r) [] cache key sample
          key_hint sample_hint binary query_id))
       = [(''hash_code'', PyInt (cache_id cache)),
          (''flag'', PyInt (if truthy binary then 1 else 0)),
          (''key'', key), (''sample'', sample)]"
  by (simp add: recording_def
      cache_replace_if_equals_def cache_replace_if_equals_query_struct_def
      cache_replace_if_equals_query_params_def
      cache_remove_if_equals_def cache_remove_if_equals_query_struct_def
      cache_remove_if_equals_query_params_def split: sum.splits)

end
